theory Spec2Isabelle
  imports Complex_Main
begin

section \<open>tbviewer: the OziExplorer .map codec and the calibration engine\<close>

text \<open>
  A shallow embedding of \<^verbatim>\<open>tbviewer/mapfile.py\<close>. Python's floats are idealised as
  real numbers (exact arithmetic), Python's unbounded integers are \<open>int\<close>, strings are
  \<open>char list\<close>, and every exception the code can raise is a value of the type \<open>error\<close>:
  a function that may raise returns \<open>error + 'a\<close>, with \<open>Inl\<close> for the exception.
\<close>

subsection \<open>Exceptions\<close>

text \<open>
  \<open>InvalidFileException\<close> is the module's own exception class; its argument records which
  of the four \<^verbatim>\<open>raise InvalidFileException(...)\<close> statements raised it (the message in the
  source). The other constructors are the built-in exceptions that the code lets escape,
  but for the last: \<open>NonFiniteFloat\<close> is not an exception. It marks a run in which
  \<^verbatim>\<open>float()\<close> returned an infinity or a NaN (from the literals \<^verbatim>\<open>inf\<close>,
  \<^verbatim>\<open>infinity\<close>, \<^verbatim>\<open>nan\<close>), a value that the real numbers cannot hold: the run leaves
  the model at that point, and the model says so instead of inventing a result.
\<close>

datatype reason = WrongHeader | WrongFieldCount | WrongField | NoMessage

datatype error =
    InvalidFileException reason
  | ValueError
  | IndexError
  | NameError
  | TypeError
  | ZeroDivisionError
  | OverflowError
  | NonFiniteFloat

definition ebind :: "error + 'a \<Rightarrow> ('a \<Rightarrow> error + 'b) \<Rightarrow> error + 'b" where
  "ebind m f = (case m of Inl e \<Rightarrow> Inl e | Inr v \<Rightarrow> f v)"

definition py_index :: "'a list \<Rightarrow> nat \<Rightarrow> error + 'a" where
  \<comment> \<open>\<^verbatim>\<open>xs[i]\<close> for a non-negative literal index\<close>
  "py_index xs i = (if i < length xs then Inr (xs ! i) else Inl IndexError)"

definition py_truediv :: "real \<Rightarrow> real \<Rightarrow> error + real" where
  \<comment> \<open>\<^verbatim>\<open>a / b\<close>\<close>
  "py_truediv a b = (if b = 0 then Inl ZeroDivisionError else Inr (a / b))"

subsection \<open>Data model\<close>

record Point =
  pt_idx :: "int option"
  pt_x :: real
  pt_y :: real
  pt_lat :: real
  pt_lon :: real

record MapFile =
  filename :: "string option"
  img_filename :: "string option"
  img_filepath :: "string option"
  projection :: "string option"
  map_projection :: "string option"
  points :: "Point list"
  mmpxy :: "(int \<times> int) list"
  mmpll :: "(real \<times> real) list"
  mmpnum :: "int option"
  mm1b :: "real option"
  image_width :: "int option"
  image_height :: "int option"

definition clear :: MapFile where
  "clear = \<lparr> filename = None, img_filename = None, img_filepath = None,
             projection = None, map_projection = None,
             points = [], mmpxy = [], mmpll = [], mmpnum = None, mm1b = None,
             image_width = None, image_height = None \<rparr>"

subsection \<open>Coordinate inversion: \<^verbatim>\<open>_det\<close>, \<^verbatim>\<open>_intersect_lines\<close>, \<^verbatim>\<open>_map_xy_lonlat\<close>, \<^verbatim>\<open>xy2latlon\<close>\<close>

definition det :: "real \<Rightarrow> real \<Rightarrow> real \<Rightarrow> real \<Rightarrow> real" where
  "det a b c d = a * d - b * c"

definition intersect_lines ::
  "real \<Rightarrow> real \<Rightarrow> real \<Rightarrow> real \<Rightarrow> real \<Rightarrow> real \<Rightarrow> real \<Rightarrow> real \<Rightarrow> error + (real \<times> real)" where
  \<comment> \<open>\<^verbatim>\<open>d = _det(...) or 1\<close>: a zero determinant is falsy, so \<open>d\<close> becomes 1\<close>
  "intersect_lines x1 y1 x2 y2 x3 y3 x4 y4 =
     (let d0 = det (x1 - x2) (y1 - y2) (x3 - x4) (y3 - y4);
          d = (if d0 = 0 then 1 else d0);
          d1 = det x1 y1 x2 y2;
          d2 = det x3 y3 x4 y4
      in ebind (py_truediv (det d1 (x1 - x2) d2 (x3 - x4)) d) (\<lambda>px.
         ebind (py_truediv (det d1 (y1 - y2) d2 (y3 - y4)) d) (\<lambda>py.
         Inr (px, py))))"

definition map_xy_lonlat ::
  "real \<times> real \<Rightarrow> real \<times> real \<Rightarrow> real \<times> real \<Rightarrow> real \<times> real \<Rightarrow>
   int option \<Rightarrow> int option \<Rightarrow> real \<Rightarrow> real \<Rightarrow> error + (real \<times> real)" where
  \<comment> \<open>\<open>sx\<close>, \<open>sy\<close> are the record's image width and height, \<open>None\<close> until a file sets
      them: \<^verbatim>\<open>sy - y\<close> on \<open>None\<close> is a TypeError. The eight arguments of the call are
      evaluated left to right, each a true division by \<open>sy\<close> or by \<open>sx\<close>.\<close>
  "map_xy_lonlat xy0 xy1 xy2 xy3 sxo syo x y =
     (case xy0 of (x0, y0) \<Rightarrow> case xy1 of (x1, y1) \<Rightarrow>
      case xy2 of (x2, y2) \<Rightarrow> case xy3 of (x3, y3) \<Rightarrow>
      (case syo of None \<Rightarrow> Inl TypeError | Some syi \<Rightarrow>
       case sxo of None \<Rightarrow> Inl TypeError | Some sxi \<Rightarrow>
       (let sy = real_of_int syi; sx = real_of_int sxi;
            syy = sy - y; sxx = sx - x
        in ebind (py_truediv (syy * x0 + y * x3) sy) (\<lambda>a1.
           ebind (py_truediv (syy * y0 + y * y3) sy) (\<lambda>b1.
           ebind (py_truediv (syy * x1 + y * x2) sy) (\<lambda>a2.
           ebind (py_truediv (syy * y1 + y * y2) sy) (\<lambda>b2.
           ebind (py_truediv (sxx * x0 + x * x1) sx) (\<lambda>a3.
           ebind (py_truediv (sxx * y0 + x * y1) sx) (\<lambda>b3.
           ebind (py_truediv (sxx * x3 + x * x2) sx) (\<lambda>a4.
           ebind (py_truediv (sxx * y3 + x * y2) sx) (\<lambda>b4.
           intersect_lines a1 b1 a2 b2 a3 b3 a4 b4)))))))))))"

definition xy2latlon :: "MapFile \<Rightarrow> real \<Rightarrow> real \<Rightarrow> error + (real \<times> real) option" where
  \<comment> \<open>\<^verbatim>\<open>if not self.mmpll: return None\<close>, then the four indexings in order\<close>
  "xy2latlon self x y =
     (if mmpll self = [] then Inr None
      else ebind (py_index (mmpll self) 0) (\<lambda>c0.
           ebind (py_index (mmpll self) 1) (\<lambda>c1.
           ebind (py_index (mmpll self) 2) (\<lambda>c2.
           ebind (py_index (mmpll self) 3) (\<lambda>c3.
           ebind (map_xy_lonlat c0 c1 c2 c3 (image_width self) (image_height self) x y)
             (\<lambda>p. Inr (Some p)))))))"

subsection \<open>Calibration: \<^verbatim>\<open>_sort_points\<close>, \<^verbatim>\<open>_calibrate_calculate\<close>, \<^verbatim>\<open>calibrate\<close>\<close>

text \<open>
  The distance key of \<^verbatim>\<open>_sort_points\<close> is computed in Python's own arithmetic:
  \<^verbatim>\<open>math.sqrt((pos.x - x0) ** 2 + (pos.y - y0) ** 2)\<close> rounds when the operands are
  floats, and each operation can raise OverflowError. The arithmetic is therefore a parameter:
  a record of the four operations on a linearly ordered type \<open>'n\<close> of Python numbers (ints
  and floats, infinities included, NaN excluded), each returning a number or an exception.
  \<open>ar_num\<close> is the Python number stored in a field of a \<open>Point\<close> or passed as a corner
  coordinate. \<open>exact_arith\<close> is the instance over the real numbers with no rounding.
\<close>

record 'n arith =
  ar_num :: "real \<Rightarrow> 'n"
  ar_sub :: "'n \<Rightarrow> 'n \<Rightarrow> error + 'n"
  ar_pow2 :: "'n \<Rightarrow> error + 'n"
  ar_add :: "'n \<Rightarrow> 'n \<Rightarrow> error + 'n"
  ar_sqrt :: "'n \<Rightarrow> error + 'n"

definition exact_arith :: "real arith" where
  "exact_arith = \<lparr> ar_num = (\<lambda>r. r), ar_sub = (\<lambda>a b. Inr (a - b)), ar_pow2 = (\<lambda>a. Inr (a\<^sup>2)),
                   ar_add = (\<lambda>a b. Inr (a + b)), ar_sqrt = (\<lambda>a. Inr (sqrt a)) \<rparr>"

definition dist_from_fl :: "'n arith \<Rightarrow> Point \<Rightarrow> real \<Rightarrow> real \<Rightarrow> error + 'n" where
  \<comment> \<open>the nested function \<^verbatim>\<open>dist_from\<close>, operands evaluated left to right\<close>
  "dist_from_fl A pos x0 y0 =
     ebind (ar_sub A (ar_num A (pt_x pos)) (ar_num A x0)) (\<lambda>dx.
     ebind (ar_pow2 A dx) (\<lambda>dx2.
     ebind (ar_sub A (ar_num A (pt_y pos)) (ar_num A y0)) (\<lambda>dy.
     ebind (ar_pow2 A dy) (\<lambda>dy2.
     ebind (ar_add A dx2 dy2) (\<lambda>s. ar_sqrt A s)))))"

definition dist_from :: "Point \<Rightarrow> real \<Rightarrow> real \<Rightarrow> real" where
  \<comment> \<open>the value of \<^verbatim>\<open>dist_from\<close> over exact arithmetic: the Euclidean distance\<close>
  "dist_from pos x0 y0 = sqrt ((pt_x pos - x0)\<^sup>2 + (pt_y pos - y0)\<^sup>2)"

fun keys_of :: "('a \<Rightarrow> error + 'k) \<Rightarrow> 'a list \<Rightarrow> error + ('k \<times> 'a) list" where
  "keys_of key [] = Inr []"
| "keys_of key (x # xs) =
     ebind (key x) (\<lambda>k. ebind (keys_of key xs) (\<lambda>r. Inr ((k, x) # r)))"

definition sorted_by :: "('a \<Rightarrow> error + 'k::linorder) \<Rightarrow> 'a list \<Rightarrow> error + 'a list" where
  \<comment> \<open>\<^verbatim>\<open>sorted(xs, key=key)\<close>: the key of every item is computed first, in input order
      (the first exception escapes), then the items are sorted by their keys with a stable
      sort, as \<open>sort_key\<close> is\<close>
  "sorted_by key xs = ebind (keys_of key xs) (\<lambda>kx. Inr (map snd (sort_key fst kx)))"

definition sort_points_fl ::
  "('n::linorder) arith \<Rightarrow> Point list \<Rightarrow> int option \<Rightarrow> int option \<Rightarrow> error + Point list" where
  \<comment> \<open>The sorted list of a non-empty list is non-empty, so \<^verbatim>\<open>[0]\<close> is its head. A width
      or height that is \<open>None\<close> makes \<^verbatim>\<open>pos.x - x0\<close> a TypeError at the first key. The
      result is the empty list or the 4-tuple \<open>(nw, ne, se, sw)\<close>.\<close>
  "sort_points_fl A positions wo ho =
     (if positions = [] then Inr []
      else
      ebind (sorted_by (\<lambda>p. dist_from_fl A p 0 0) positions) (\<lambda>s_nw.
      case wo of None \<Rightarrow> Inl TypeError | Some width \<Rightarrow>
      ebind (sorted_by (\<lambda>p. dist_from_fl A p (real_of_int width) 0) positions) (\<lambda>s_ne.
      case ho of None \<Rightarrow> Inl TypeError | Some height \<Rightarrow>
      ebind (sorted_by (\<lambda>p. dist_from_fl A p 0 (real_of_int height)) positions) (\<lambda>s_sw.
      ebind (sorted_by (\<lambda>p. dist_from_fl A p (real_of_int width) (real_of_int height))
               positions) (\<lambda>s_se.
      Inr [hd s_nw, hd s_ne, hd s_se, hd s_sw])))))"

definition sort_points :: "Point list \<Rightarrow> int option \<Rightarrow> int option \<Rightarrow> error + Point list" where
  \<comment> \<open>\<^verbatim>\<open>_sort_points\<close> over exact arithmetic, as the calibration formulas below are\<close>
  "sort_points positions wo ho = sort_points_fl exact_arith positions wo ho"

definition calibrate_calculate ::
  "Point list \<Rightarrow> int option \<Rightarrow> int option \<Rightarrow> error + (int \<times> int \<times> real \<times> real) list" where
  \<comment> \<open>\<^verbatim>\<open>nw, ne, se, sw = poss\<close> raises ValueError unless \<open>poss\<close> has exactly four items\<close>
  "calibrate_calculate positions wo ho =
     ebind (sort_points positions wo ho) (\<lambda>poss.
       case poss of
         [nw, ne, se, sw] \<Rightarrow>
           (case wo of None \<Rightarrow> Inl TypeError | Some width \<Rightarrow>
            case ho of None \<Rightarrow> Inl TypeError | Some height \<Rightarrow>
            ebind (py_truediv (pt_lat nw - pt_lat ne) (pt_x nw - pt_x ne)) (\<lambda>ds_n.
              let nw_lat = pt_lat nw - ds_n * pt_x nw;
                  ne_lat = nw_lat + ds_n * real_of_int width
              in
            ebind (py_truediv (pt_lat se - pt_lat sw) (pt_x se - pt_x sw)) (\<lambda>ds_s.
              let sw_lat = pt_lat sw - ds_s * pt_x sw;
                  se_lat = sw_lat + ds_s * real_of_int width
              in
            ebind (py_truediv (pt_lon nw - pt_lon sw) (pt_y nw - pt_y sw)) (\<lambda>ds_w.
              let nw_lon = pt_lon nw - ds_w * pt_y nw;
                  sw_lon = nw_lon + ds_w * real_of_int height
              in
            ebind (py_truediv (pt_lon ne - pt_lon se) (pt_y ne - pt_y se)) (\<lambda>ds_e.
              let ne_lon = pt_lon ne - ds_e * pt_y ne;
                  se_lon = ne_lon + ds_e * real_of_int height
              in Inr [(0, 0, nw_lat, nw_lon),
                      (width, 0, ne_lat, ne_lon),
                      (width, height, se_lat, se_lon),
                      (0, height, sw_lat, sw_lon)])))))
       | _ \<Rightarrow> Inl ValueError)"

definition radians :: "real \<Rightarrow> real" where
  "radians d = d * pi / 180"

definition calibrate :: "MapFile \<Rightarrow> error + MapFile" where
  \<comment> \<open>the record after \<^verbatim>\<open>calibrate\<close> returns, or the exception it raises\<close>
  "calibrate self =
     ebind (calibrate_calculate (points self) (image_width self) (image_height self)) (\<lambda>mmp.
       let xy = map (\<lambda>(x, y, lat, lon). (x, y)) mmp;
           ll = map (\<lambda>(x, y, lat, lon). (lat, lon)) mmp;
           num = int (length ll)
       in
       ebind (py_index ll 0) (\<lambda>c0. ebind (py_index ll 3) (\<lambda>c3.
         let lat_w_avg = (fst c0 + fst c3) / 2 in
       ebind (py_index ll 1) (\<lambda>c1. ebind (py_index ll 2) (\<lambda>c2.
         let lat_e_avg = (fst c1 + fst c2) / 2;
             lon_avg = (snd c0 + snd c3 + snd c1 + snd c2) / 4;
             d_lat = lat_e_avg - lat_w_avg;
             d_lat_dist = \<bar>d_lat * pi / 180 * 6378137 * cos (radians lon_avg)\<bar>
         in
       (case image_width self of None \<Rightarrow> Inl TypeError | Some width \<Rightarrow>
        ebind (py_truediv d_lat_dist (real_of_int width)) (\<lambda>m.
          Inr (self\<lparr> mmpll := ll, mmpxy := xy, mmpnum := Some num, mm1b := Some m \<rparr>))))))))"

definition validate :: "MapFile \<Rightarrow> bool" where
  "validate self \<longleftrightarrow>
     mmpnum self = Some (int (length (mmpxy self))) \<and>
     length (mmpxy self) = length (mmpll self) \<and> length (mmpll self) = 4"

subsection \<open>Python string built-ins\<close>

text \<open>
  Characters are the code points below 256. \<open>is_space\<close> is \<^verbatim>\<open>str.isspace\<close> on them.
  The numbers are those of CPython without a limit on the length of integer strings
  (\<^verbatim>\<open>sys.int_max_str_digits\<close>, which later interpreters add).
\<close>

definition is_space :: "char \<Rightarrow> bool" where
  "is_space c \<longleftrightarrow> (of_char c :: nat) \<in> {9, 10, 11, 12, 13, 28, 29, 30, 31, 32, 133, 160}"

definition strip :: "string \<Rightarrow> string" where
  \<comment> \<open>\<^verbatim>\<open>s.strip()\<close>\<close>
  "strip s = rev (dropWhile is_space (rev (dropWhile is_space s)))"

definition is_num_space :: "char \<Rightarrow> bool" where
  \<comment> \<open>the whitespace that \<^verbatim>\<open>int()\<close> and \<^verbatim>\<open>float()\<close> skip around a number: the
      separators U+001C to U+001F, which \<^verbatim>\<open>strip()\<close> removes, are not among it\<close>
  "is_num_space c \<longleftrightarrow> (of_char c :: nat) \<in> {9, 10, 11, 12, 13, 32, 133, 160}"

definition strip_num :: "string \<Rightarrow> string" where
  "strip_num s = rev (dropWhile is_num_space (rev (dropWhile is_num_space s)))"

fun split_on :: "char \<Rightarrow> string \<Rightarrow> string list" where
  "split_on sep [] = [[]]"
| "split_on sep (c # cs) =
     (let r = split_on sep cs
      in if c = sep then [] # r else (c # hd r) # tl r)"

definition startswith :: "string \<Rightarrow> string \<Rightarrow> bool" where
  "startswith s p \<longleftrightarrow> take (length p) s = p"

definition is_digit :: "char \<Rightarrow> bool" where
  "is_digit c \<longleftrightarrow> 48 \<le> (of_char c :: nat) \<and> (of_char c :: nat) \<le> 57"

definition digit_val :: "char \<Rightarrow> nat" where
  "digit_val c = of_char c - 48"

fun digits_run :: "nat \<Rightarrow> nat \<Rightarrow> string \<Rightarrow> nat \<times> nat \<times> string" where
  "digits_run v n [] = (v, n, [])"
| "digits_run v n [c] =
     (if is_digit c then (10 * v + digit_val c, Suc n, []) else (v, n, [c]))"
| "digits_run v n (c # d # ds) =
     (if is_digit c then digits_run (10 * v + digit_val c) (Suc n) (d # ds)
      else if c = CHR ''_'' \<and> is_digit d then digits_run (10 * v + digit_val d) (Suc n) ds
      else (v, n, c # d # ds))"

definition digitpart :: "string \<Rightarrow> (nat \<times> nat \<times> string) option" where
  "digitpart s =
     (case s of [] \<Rightarrow> None
      | c # cs \<Rightarrow> if is_digit c then Some (digits_run (digit_val c) 1 cs) else None)"

definition unsigned_int :: "string \<Rightarrow> nat option" where
  "unsigned_int s =
     (case digitpart s of Some (v, n, []) \<Rightarrow> Some v | _ \<Rightarrow> None)"

definition py_int :: "string \<Rightarrow> int option" where
  \<comment> \<open>\<^verbatim>\<open>int(s)\<close>: \<open>None\<close> is the ValueError\<close>
  "py_int s =
     (case strip_num s of [] \<Rightarrow> None
      | c # cs \<Rightarrow>
          if c = CHR ''-'' then map_option (\<lambda>n. - int n) (unsigned_int cs)
          else if c = CHR ''+'' then map_option int (unsigned_int cs)
          else map_option int (unsigned_int (c # cs)))"

definition float_mantissa :: "string \<Rightarrow> (real \<times> string) option" where
  "float_mantissa s =
     (case digitpart s of
        Some (v, n, r) \<Rightarrow>
          (case r of
             [] \<Rightarrow> Some (real v, [])
           | c # r' \<Rightarrow>
               if c = CHR ''.'' then
                 (case digitpart r' of
                    Some (f, m, r'') \<Rightarrow> Some (real v + real f / 10 ^ m, r'')
                  | None \<Rightarrow> Some (real v, r'))
               else Some (real v, r))
      | None \<Rightarrow>
          (case s of
             [] \<Rightarrow> None
           | c # r' \<Rightarrow>
               if c = CHR ''.'' then
                 (case digitpart r' of
                    Some (f, m, r'') \<Rightarrow> Some (real f / 10 ^ m, r'')
                  | None \<Rightarrow> None)
               else None))"

definition float_exponent :: "string \<Rightarrow> int option" where
  "float_exponent s =
     (case s of [] \<Rightarrow> Some 0
      | c # cs \<Rightarrow>
          if c = CHR ''e'' \<or> c = CHR ''E'' then
            (case cs of [] \<Rightarrow> None
             | d # ds \<Rightarrow>
                 if d = CHR ''-'' then map_option (\<lambda>n. - int n) (unsigned_int ds)
                 else if d = CHR ''+'' then map_option int (unsigned_int ds)
                 else map_option int (unsigned_int (d # ds)))
          else None)"

definition unsigned_float :: "string \<Rightarrow> real option" where
  "unsigned_float s =
     (case float_mantissa s of None \<Rightarrow> None
      | Some (m, r) \<Rightarrow>
          (case float_exponent r of None \<Rightarrow> None
           | Some e \<Rightarrow> Some (if 0 \<le> e then m * 10 ^ nat e else m / 10 ^ nat (- e))))"

datatype float_lit = NotAFloat | NonFinite | Finite real

definition ci_match :: "char \<Rightarrow> char \<Rightarrow> bool" where
  \<comment> \<open>\<open>c\<close> is the lower-case letter \<open>l\<close> or its upper-case form\<close>
  "ci_match c l \<longleftrightarrow> c = l \<or> (of_char c :: nat) + 32 = of_char l"

definition is_nonfinite_word :: "string \<Rightarrow> bool" where
  "is_nonfinite_word s \<longleftrightarrow>
     list_all2 ci_match s ''inf'' \<or> list_all2 ci_match s ''infinity'' \<or>
     list_all2 ci_match s ''nan''"

definition py_float :: "string \<Rightarrow> float_lit" where
  \<comment> \<open>\<^verbatim>\<open>float(s)\<close>: \<open>NotAFloat\<close> is the ValueError; a finite literal denotes its exact
      decimal value\<close>
  "py_float s =
     (case strip_num s of [] \<Rightarrow> NotAFloat
      | c # cs \<Rightarrow>
          (let body = (if c = CHR ''-'' \<or> c = CHR ''+'' then cs else c # cs)
           in if is_nonfinite_word body then NonFinite
              else case unsigned_float body of
                     None \<Rightarrow> NotAFloat
                   | Some v \<Rightarrow> Finite (if c = CHR ''-'' then - v else v)))"

subsection \<open>The parser: \<^verbatim>\<open>_parse_point\<close>, \<^verbatim>\<open>_parse_mmpxy\<close>, \<^verbatim>\<open>_parse_mmpll\<close>, \<^verbatim>\<open>parse_map\<close>\<close>

definition to_int :: "string \<Rightarrow> error + int" where
  \<comment> \<open>\<^verbatim>\<open>int(s)\<close>\<close>
  "to_int s = (case py_int s of None \<Rightarrow> Inl ValueError | Some i \<Rightarrow> Inr i)"

definition to_float :: "string \<Rightarrow> error + real" where
  \<comment> \<open>\<^verbatim>\<open>float(s)\<close>\<close>
  "to_float s =
     (case py_float s of
        NotAFloat \<Rightarrow> Inl ValueError | NonFinite \<Rightarrow> Inl NonFiniteFloat | Finite r \<Rightarrow> Inr r)"

definition parse_point :: "string \<Rightarrow> error + Point option" where
  \<comment> \<open>The arguments of \<^verbatim>\<open>Point(...)\<close> are evaluated left to right: fields 2, 3, 9, 10, 6, 7.
      The constructor takes \<open>(x, y, lat, lon)\<close>.\<close>
  "parse_point line =
     (let fields = split_on CHR '','' line in
      ebind (py_index fields 2) (\<lambda>f2.
      if strip f2 = [] then Inr None
      else
      ebind (to_int f2) (\<lambda>x.
      ebind (py_index fields 3) (\<lambda>f3. ebind (to_int f3) (\<lambda>y.
      ebind (py_index fields 9) (\<lambda>f9. ebind (to_int f9) (\<lambda>d9.
      ebind (py_index fields 10) (\<lambda>f10. ebind (to_float f10) (\<lambda>m10.
      ebind (py_index fields 6) (\<lambda>f6. ebind (to_int f6) (\<lambda>d6.
      ebind (py_index fields 7) (\<lambda>f7. ebind (to_float f7) (\<lambda>m7.
      let point = \<lparr> pt_idx = None, pt_x = real_of_int x, pt_y = real_of_int y,
                     pt_lat = real_of_int d9 + m10 / 60,
                     pt_lon = real_of_int d6 + m7 / 60 \<rparr>
      in
      ebind (py_index fields 0) (\<lambda>f0. ebind (to_int (drop 6 f0)) (\<lambda>i.
      let point = point\<lparr> pt_idx := Some i \<rparr> in
      ebind (py_index fields 8) (\<lambda>f8.
      let point = (if f8 = ''E'' then point\<lparr> pt_lat := pt_lat point * (- 1) \<rparr> else point) in
      ebind (py_index fields 11) (\<lambda>f11.
      let point = (if f11 = ''S'' then point\<lparr> pt_lon := pt_lon point * (- 1) \<rparr> else point) in
      Inr (Some point))))))))))))))))))"

definition value_error_as :: "reason \<Rightarrow> error + 'a \<Rightarrow> error + 'a" where
  \<comment> \<open>\<^verbatim>\<open>try: ... except ValueError as err: raise InvalidFileException(...)\<close>\<close>
  "value_error_as r m = (case m of Inl ValueError \<Rightarrow> Inl (InvalidFileException r) | _ \<Rightarrow> m)"

definition parse_mmpxy :: "string \<Rightarrow> error + (int \<times> int \<times> int)" where
  "parse_mmpxy line =
     (let fields = split_on CHR '','' line in
      if length fields \<noteq> 4 then Inl (InvalidFileException WrongFieldCount)
      else case map strip fields of
        [_, point_id, x, y] \<Rightarrow>
          value_error_as WrongField
            (ebind (to_int point_id) (\<lambda>point_id.
             ebind (to_int x) (\<lambda>x.
             ebind (to_int y) (\<lambda>y. Inr (point_id, x, y)))))
      | _ \<Rightarrow> Inl ValueError)"

definition parse_mmpll :: "string \<Rightarrow> error + (int \<times> real \<times> real)" where
  \<comment> \<open>returns \<open>(point_id, lon, lat)\<close>: field 2 is named \<open>lon\<close>, field 3 \<open>lat\<close>\<close>
  "parse_mmpll line =
     (let fields = split_on CHR '','' line in
      if length fields \<noteq> 4 then Inl (InvalidFileException WrongFieldCount)
      else case map strip fields of
        [_, point_id, lon, lat] \<Rightarrow>
          value_error_as WrongField
            (ebind (to_int point_id) (\<lambda>point_id.
             ebind (to_float lon) (\<lambda>lon.
             ebind (to_float lat) (\<lambda>lat. Inr (point_id, lon, lat)))))
      | _ \<Rightarrow> Inl ValueError)"

definition header :: string where
  "header = ''OziExplorer Map Data File Version 2.2''"

definition parse_line :: "MapFile \<Rightarrow> string \<Rightarrow> error + MapFile" where
  \<comment> \<open>one iteration of \<^verbatim>\<open>for line in content[9:]\<close>. A \<open>Point\<close> object is always truthy.
      \<^verbatim>\<open>Error\<close> in \<^verbatim>\<open>raise Error()\<close> is not defined anywhere in the module: evaluating
      the name raises NameError. The caller unpacks the result of \<open>parse_mmpll\<close> as
      \<open>(point_id, lat, lon)\<close>.\<close>
  "parse_line self line =
     (if startswith line ''Point'' then
        ebind (parse_point line) (\<lambda>point.
          case point of None \<Rightarrow> Inr self
          | Some p \<Rightarrow> Inr (self\<lparr> points := points self @ [p] \<rparr>))
      else if startswith line ''IWH,Map Image Width/Height,'' then
        (case map to_int (split_on CHR '','' (drop 27 line)) of
           [Inr w, Inr h] \<Rightarrow> Inr (self\<lparr> image_width := Some w, image_height := Some h \<rparr>)
         | _ \<Rightarrow> Inl ValueError)
      else if startswith line ''MMPNUM,'' then
        ebind (to_int (drop 7 line)) (\<lambda>n. Inr (self\<lparr> mmpnum := Some n \<rparr>))
      else if startswith line ''MMPLL'' then
        ebind (parse_mmpll line) (\<lambda>(point_id, lat, lon).
          if point_id - 1 \<noteq> int (length (mmpll self)) then Inl NameError
          else Inr (self\<lparr> mmpll := mmpll self @ [(lat, lon)] \<rparr>))
      else if startswith line ''MMPXY'' then
        ebind (parse_mmpxy line) (\<lambda>(point_id, x, y).
          if point_id - 1 \<noteq> int (length (mmpxy self)) then Inl (InvalidFileException NoMessage)
          else Inr (self\<lparr> mmpxy := mmpxy self @ [(x, y)] \<rparr>))
      else if startswith line ''MM1B,'' then
        ebind (to_float (drop 5 line)) (\<lambda>m. Inr (self\<lparr> mm1b := Some m \<rparr>))
      else Inr self)"

fun parse_lines :: "MapFile \<Rightarrow> string list \<Rightarrow> error + MapFile" where
  "parse_lines self [] = Inr self"
| "parse_lines self (line # rest) = ebind (parse_line self line) (\<lambda>self'. parse_lines self' rest)"

definition parse_map :: "string \<Rightarrow> error + MapFile" where
  \<comment> \<open>\<^verbatim>\<open>self.clear()\<close> first: the result does not depend on the record's earlier state\<close>
  "parse_map content =
     (let content = map strip (split_on (CHR 0x0A) content) in
      ebind (py_index content 0) (\<lambda>l0.
      if l0 \<noteq> header then Inl (InvalidFileException WrongHeader)
      else
      ebind (py_index content 1) (\<lambda>l1.
      ebind (py_index content 2) (\<lambda>l2.
      ebind (py_index content 4) (\<lambda>l4.
      ebind (py_index content 8) (\<lambda>l8.
      parse_lines
        (clear\<lparr> img_filename := Some l1, img_filepath := Some l2,
                 projection := Some l4, map_projection := Some l8 \<rparr>)
        (drop 9 content)))))))"

definition nl :: string where "nl = [CHR 0x0A]"

subsection \<open>Python formatting built-ins\<close>

definition digit_char :: "nat \<Rightarrow> char" where
  "digit_char n = ''0123456789'' ! n"

fun digits_of :: "nat \<Rightarrow> string" where
  "digits_of n =
     (if n < 10 then [digit_char n] else digits_of (n div 10) @ [digit_char (n mod 10)])"

declare digits_of.simps [simp del]

definition str_int :: "int \<Rightarrow> string" where
  \<comment> \<open>\<^verbatim>\<open>str(i)\<close>, which is also \<^verbatim>\<open>'{}'.format(i)\<close>\<close>
  "str_int i = (if i < 0 then CHR ''-'' # digits_of (nat (- i)) else digits_of (nat i))"

definition rjust :: "nat \<Rightarrow> char \<Rightarrow> string \<Rightarrow> string" where
  "rjust w c s = replicate (w - length s) c @ s"

definition round_half_even :: "real \<Rightarrow> int" where
  "round_half_even r =
     (let f = \<lfloor>r\<rfloor>; d = r - real_of_int f
      in if d < 1 / 2 then f else if 1 / 2 < d then f + 1 else if even f then f else f + 1)"

definition fmt_f7 :: "real \<Rightarrow> string" where
  \<comment> \<open>\<^verbatim>\<open>'{:3.7f}'.format(v)\<close>: sign, integer digits, point, exactly seven fraction digits;
      the minimum width 3 never pads\<close>
  "fmt_f7 v =
     (let n = nat (round_half_even (\<bar>v\<bar> * 10 ^ 7))
      in (if v < 0 then ''-'' else '''') @ digits_of (n div 10 ^ 7) @ ''.'' @
         rjust 7 (CHR ''0'') (digits_of (n mod 10 ^ 7)))"

definition py_trunc :: "real \<Rightarrow> int" where
  \<comment> \<open>\<^verbatim>\<open>int(x)\<close> of a number: truncation towards zero\<close>
  "py_trunc r = (if 0 \<le> r then \<lfloor>r\<rfloor> else \<lceil>r\<rceil>)"


subsection \<open>The serializer: \<^verbatim>\<open>degree2minsec\<close>, \<^verbatim>\<open>to_str\<close>\<close>

definition degree2minsec :: "real \<Rightarrow> string \<Rightarrow> string \<Rightarrow> int \<times> real \<times> string" where
  "degree2minsec d lz gz =
     (let symb = gz;
          d' = (if d < 0 then d * (- 1) else d);
          symb' = (if d < 0 then lz else symb)
      in (py_trunc d', (d' - real_of_int (py_trunc d')) * 60, symb'))"

definition point_line :: "nat \<Rightarrow> Point \<Rightarrow> string" where
  \<comment> \<open>\<^verbatim>\<open>_MAP_POINT_TEMPLATE.format(...)\<close> with the arguments that \<^verbatim>\<open>to_str\<close> passes\<close>
  "point_line idx p =
     (case degree2minsec (pt_lat p) ''W'' ''E'' of (lat_m, lat_s, lat_d) \<Rightarrow>
      case degree2minsec (pt_lon p) ''S'' ''N'' of (lon_m, lon_s, lon_d) \<Rightarrow>
        ''Point'' @ str_int (int idx) @ '',xy,'' @
        rjust 5 (CHR '' '') (str_int (py_trunc (pt_x p))) @ '','' @
        rjust 5 (CHR '' '') (str_int (py_trunc (pt_y p))) @ '',in, deg,'' @
        rjust 4 (CHR '' '') (str_int lon_m) @ '','' @ fmt_f7 lon_s @ '','' @ lon_d @ '','' @
        rjust 4 (CHR '' '') (str_int lat_m) @ '','' @ fmt_f7 lat_s @ '','' @ lat_d @
        '', grid,   ,           ,           ,N'')"


definition mmpll_line :: "nat \<Rightarrow> real \<times> real \<Rightarrow> string" where
  "mmpll_line idx ll =
     (case ll of (lat, lon) \<Rightarrow>
        ''MMPLL,'' @ str_int (int idx + 1) @ '','' @ fmt_f7 lat @ '','' @ fmt_f7 lon)"




subsection \<open>Specification-side and test-fixture definitions\<close>

text \<open>
  \<open>spec_first_nearest\<close> follows the words of the specification, not the code: \<open>p\<close> is the
  first point of \<open>ps\<close>, in input order, having minimum Euclidean distance to \<open>(x0, y0)\<close>.
\<close>

definition spec_first_nearest :: "Point list \<Rightarrow> real \<Rightarrow> real \<Rightarrow> Point \<Rightarrow> bool" where
  "spec_first_nearest ps x0 y0 p \<longleftrightarrow>
     (\<exists>i<length ps. ps ! i = p \<and>
        (\<forall>j<length ps. dist_from p x0 y0 \<le> dist_from (ps ! j) x0 y0) \<and>
        (\<forall>j<i. dist_from p x0 y0 < dist_from (ps ! j) x0 y0))"

definition mk_point :: "real \<Rightarrow> real \<Rightarrow> real \<Rightarrow> real \<Rightarrow> Point" where
  "mk_point x y lat lon = \<lparr> pt_idx = None, pt_x = x, pt_y = y, pt_lat = lat, pt_lon = lon \<rparr>"

text \<open>
  \<open>spec_first_min_by\<close> is the same notion for an arbitrary key: \<open>p\<close> is the first item of
  \<open>xs\<close>, in input order, whose key is minimal.
\<close>

definition spec_first_min_by :: "('a \<Rightarrow> 'k::linorder) \<Rightarrow> 'a list \<Rightarrow> 'a \<Rightarrow> bool" where
  "spec_first_min_by key xs p \<longleftrightarrow>
     (\<exists>i<length xs. xs ! i = p \<and>
        (\<forall>j<length xs. key p \<le> key (xs ! j)) \<and>
        (\<forall>j<i. key p < key (xs ! j)))"

definition coarse_arith :: "real arith" where
  \<comment> \<open>an arithmetic that rounds: the sum is rounded down to a whole number\<close>
  "coarse_arith = exact_arith\<lparr> ar_add := (\<lambda>a b. Inr (real_of_int \<lfloor>a + b\<rfloor>)) \<rparr>"

definition coarse_dist :: "real \<Rightarrow> real \<Rightarrow> Point \<Rightarrow> real" where
  "coarse_dist x0 y0 p = sqrt (real_of_int \<lfloor>(pt_x p - x0)\<^sup>2 + (pt_y p - y0)\<^sup>2\<rfloor>)"

definition near_pair :: "Point list" where
  "near_pair = [mk_point 3 (81 / 20) 0 0, mk_point 3 4 0 0]"

definition grid4 :: "Point list" where
  "grid4 = [mk_point 0 0 50 20, mk_point 10 0 50 21, mk_point 0 10 49 20, mk_point 10 10 49 21]"

definition square_map :: MapFile where
  "square_map = clear\<lparr> mmpll := [(10, 20), (10, 21), (9, 21), (9, 20)],
                        image_width := Some 1000, image_height := Some 800 \<rparr>"


definition sample_map_text :: string where
  "sample_map_text =
     ''OziExplorer Map Data File Version 2.2'' @ nl @ ''img.jpg'' @ nl @ ''c:/maps/img.jpg'' @ nl @
     ''1 ,Map Code,'' @ nl @ ''WGS 84,WGS 84,   0.0000,   0.0000,WGS 84'' @ nl @
     ''Reserved 1'' @ nl @ ''Reserved 2'' @ nl @ ''Magnetic Variation,,,E'' @ nl @
     ''Map Projection,Latitude/Longitude,PolyCal,No,AutoCalOnly,No,BSBUseWPX,No'' @ nl"






section \<open>Basic facts about the error monad and the Python primitives\<close>

lemma ebind_Inr [simp]: "ebind (Inr v) f = f v"
  by (simp add: ebind_def)

lemma ebind_Inl [simp]: "ebind (Inl e) f = Inl e"
  by (simp add: ebind_def)

lemma py_truediv_nonzero: "b \<noteq> 0 \<Longrightarrow> py_truediv a b = Inr (a / b)"
  by (simp add: py_truediv_def)

lemma py_truediv_zero: "py_truediv a 0 = Inl ZeroDivisionError"
  by (simp add: py_truediv_def)

lemma py_index_in: "i < length xs \<Longrightarrow> py_index xs i = Inr (xs ! i)"
  by (simp add: py_index_def)

lemma py_index_out: "length xs \<le> i \<Longrightarrow> py_index xs i = Inl IndexError"
  by (simp add: py_index_def)

lemma ebind_eq_Inl_iff:
  "ebind m f = Inl e \<longleftrightarrow> m = Inl e \<or> (\<exists>v. m = Inr v \<and> f v = Inl e)"
  by (cases m) auto

section \<open>Properties of the calibration engine\<close>

lemma hd_insort_key:
  "hd (insort_key f x ys) = (if ys = [] \<or> f x \<le> f (hd ys) then x else hd ys)"
  by (cases ys) auto

lemma sort_key_Nil_iff: "sort_key f xs = [] \<longleftrightarrow> xs = []"
  by (metis length_sort length_0_conv)

lemma hd_sort_key_first_min:
  fixes f :: "'a \<Rightarrow> 'k::linorder"
  shows "xs \<noteq> [] \<Longrightarrow>
    \<exists>i<length xs. xs ! i = hd (sort_key f xs) \<and>
       (\<forall>j<length xs. f (xs ! i) \<le> f (xs ! j)) \<and> (\<forall>j<i. f (xs ! i) < f (xs ! j))"
proof (induction xs)
  case Nil
  then show ?case by simp
next
  case (Cons x xs)
  show ?case
  proof (cases "xs = []")
    case True
    then show ?thesis by simp
  next
    case False
    from Cons.IH [OF False] obtain i where i: "i < length xs"
      and hd: "xs ! i = hd (sort_key f xs)"
      and mn: "\<forall>j<length xs. f (xs ! i) \<le> f (xs ! j)"
      and fst: "\<forall>j<i. f (xs ! i) < f (xs ! j)" by blast
    have ne: "sort_key f xs \<noteq> []" using False by (simp add: sort_key_Nil_iff)
    show ?thesis
    proof (cases "f x \<le> f (xs ! i)")
      case True
      have h: "hd (sort_key f (x # xs)) = x"
        using True hd ne by (simp add: hd_insort_key)
      have "\<forall>j<length (x # xs). f x \<le> f ((x # xs) ! j)"
      proof (intro allI impI)
        fix j assume "j < length (x # xs)"
        then show "f x \<le> f ((x # xs) ! j)"
          using True mn by (cases j) (auto intro: order_trans)
      qed
      then show ?thesis using h by (intro exI [of _ 0]) simp
    next
      case False
      have h: "hd (sort_key f (x # xs)) = xs ! i"
        using False hd ne by (simp add: hd_insort_key)
      have a: "\<forall>j<length (x # xs). f (xs ! i) \<le> f ((x # xs) ! j)"
      proof (intro allI impI)
        fix j assume "j < length (x # xs)"
        then show "f (xs ! i) \<le> f ((x # xs) ! j)"
          using False mn by (cases j) auto
      qed
      have b: "\<forall>j<Suc i. f (xs ! i) < f ((x # xs) ! j)"
      proof (intro allI impI)
        fix j assume "j < Suc i"
        then show "f (xs ! i) < f ((x # xs) ! j)"
          using False fst by (cases j) auto
      qed
      show ?thesis using h a b i by (intro exI [of _ "Suc i"]) simp
    qed
  qed
qed

lemma hd_sort_key_spec_first_min:
  "xs \<noteq> [] \<Longrightarrow> spec_first_min_by f xs (hd (sort_key f xs))"
  using hd_sort_key_first_min [of xs f] unfolding spec_first_min_by_def by metis

lemma keys_of_total:
  "\<forall>x\<in>set xs. key x = Inr (k x) \<Longrightarrow> keys_of key xs = Inr (map (\<lambda>x. (k x, x)) xs)"
  by (induction xs) simp_all

lemma map_snd_insort_key:
  "\<forall>p\<in>set ys. fst p = k (snd p) \<Longrightarrow>
   map snd (insort_key fst (k x, x) ys) = insort_key k x (map snd ys)"
  by (induction ys) auto

lemma sort_key_decorate:
  "map snd (sort_key fst (map (\<lambda>x. (k x, x)) xs)) = sort_key k xs"
proof (induction xs)
  case Nil
  then show ?case by simp
next
  case (Cons x xs)
  have "\<forall>p\<in>set (sort_key fst (map (\<lambda>x. (k x, x)) xs)). fst p = k (snd p)"
    by auto
  from map_snd_insort_key [OF this, of x] show ?case using Cons by simp
qed

lemma sorted_by_total:
  assumes "\<forall>x\<in>set xs. key x = Inr (k x)"
  shows "sorted_by key xs = Inr (sort_key k xs)"
  unfolding sorted_by_def keys_of_total [OF assms] by (simp add: sort_key_decorate)

lemma dist_from_fl_exact: "dist_from_fl exact_arith p x0 y0 = Inr (dist_from p x0 y0)"
  by (simp add: dist_from_fl_def exact_arith_def dist_from_def)

lemma sorted_by_exact:
  "sorted_by (\<lambda>p. dist_from_fl exact_arith p x0 y0) ps =
     Inr (sort_key (\<lambda>p. dist_from p x0 y0) ps)"
  by (rule sorted_by_total) (simp add: dist_from_fl_exact)

lemma sort_points_exact:
  "sort_points positions wo ho =
     (if positions = [] then Inr []
      else case wo of None \<Rightarrow> Inl TypeError | Some width \<Rightarrow>
           case ho of None \<Rightarrow> Inl TypeError | Some height \<Rightarrow>
           (let nw = hd (sort_key (\<lambda>p. dist_from p 0 0) positions);
                ne = hd (sort_key (\<lambda>p. dist_from p (real_of_int width) 0) positions);
                sw = hd (sort_key (\<lambda>p. dist_from p 0 (real_of_int height)) positions);
                se = hd (sort_key (\<lambda>p. dist_from p (real_of_int width) (real_of_int height))
                           positions)
            in Inr [nw, ne, se, sw]))"
  by (simp add: sort_points_def sort_points_fl_def sorted_by_exact Let_def split: option.splits)

lemma sort_points_first_nearest:
  assumes "ps \<noteq> []"
  shows "spec_first_nearest ps x0 y0 (hd (sort_key (\<lambda>p. dist_from p x0 y0) ps))"
  using hd_sort_key_first_min [OF assms, of "\<lambda>p. dist_from p x0 y0"]
  unfolding spec_first_nearest_def by metis

text \<open>
  Claim C8 (as amended). For every non-empty list of points and image dimensions
  \<open>width\<close>, \<open>height\<close>, and for every arithmetic in which the distance computations of the
  points return a number (none raises), the corner-assignment step returns four points
  \<open>[nw, ne, se, sw]\<close> where \<open>nw\<close>, \<open>ne\<close>, \<open>se\<close> and \<open>sw\<close> are the first points in input
  order whose computed distance to \<open>(0,0)\<close>, \<open>(width,0)\<close>, \<open>(width,height)\<close> and
  \<open>(0,height)\<close> respectively is minimal: SE is paired with \<open>(width,height)\<close> and SW with
  \<open>(0,height)\<close>. The distance is the one the code computes, rounding included, so two
  points whose computed distances are equal tie even when their exact distances differ;
  every tie is won by the earliest point in input order.
\<close>

theorem sort_points_fl_nearest_corners:
  assumes "positions \<noteq> []"
    and "\<forall>p\<in>set positions. dist_from_fl A p 0 0 = Inr (d_nw p)"
    and "\<forall>p\<in>set positions. dist_from_fl A p (real_of_int width) 0 = Inr (d_ne p)"
    and "\<forall>p\<in>set positions.
           dist_from_fl A p (real_of_int width) (real_of_int height) = Inr (d_se p)"
    and "\<forall>p\<in>set positions. dist_from_fl A p 0 (real_of_int height) = Inr (d_sw p)"
  shows "\<exists>nw ne se sw.
           sort_points_fl A positions (Some width) (Some height) = Inr [nw, ne, se, sw] \<and>
           spec_first_min_by d_nw positions nw \<and>
           spec_first_min_by d_ne positions ne \<and>
           spec_first_min_by d_se positions se \<and>
           spec_first_min_by d_sw positions sw"
proof -
  note s = sorted_by_total [OF assms(2)] sorted_by_total [OF assms(3)]
    sorted_by_total [OF assms(4)] sorted_by_total [OF assms(5)]
  show ?thesis
    unfolding sort_points_fl_def
    using assms(1) by (simp add: s hd_sort_key_spec_first_min)
qed

text \<open>
  Over exact arithmetic the computed distance is the Euclidean distance, and the selected
  points are the first nearest ones in the sense of the specification.
\<close>

corollary sort_points_exact_nearest_corners:
  assumes "positions \<noteq> []"
  shows "\<exists>nw ne se sw.
           sort_points positions (Some width) (Some height) = Inr [nw, ne, se, sw] \<and>
           spec_first_nearest positions 0 0 nw \<and>
           spec_first_nearest positions (real_of_int width) 0 ne \<and>
           spec_first_nearest positions (real_of_int width) (real_of_int height) se \<and>
           spec_first_nearest positions 0 (real_of_int height) sw"
  using assms by (simp add: sort_points_exact Let_def sort_points_first_nearest)

lemma intersect_lines_total:
  "intersect_lines x1 y1 x2 y2 x3 y3 x4 y4 =
     (let d0 = det (x1 - x2) (y1 - y2) (x3 - x4) (y3 - y4);
          d = (if d0 = 0 then 1 else d0)
      in Inr (det (det x1 y1 x2 y2) (x1 - x2) (det x3 y3 x4 y4) (x3 - x4) / d,
              det (det x1 y1 x2 y2) (y1 - y2) (det x3 y3 x4 y4) (y3 - y4) / d))"
  by (simp add: intersect_lines_def Let_def py_truediv_def)

lemma map_xy_lonlat_pos:
  assumes "0 < sx" "0 < sy"
  shows "map_xy_lonlat (x0, y0) (x1, y1) (x2, y2) (x3, y3) (Some sx) (Some sy) x y =
     intersect_lines
       (((real_of_int sy - y) * x0 + y * x3) / real_of_int sy)
       (((real_of_int sy - y) * y0 + y * y3) / real_of_int sy)
       (((real_of_int sy - y) * x1 + y * x2) / real_of_int sy)
       (((real_of_int sy - y) * y1 + y * y2) / real_of_int sy)
       (((real_of_int sx - x) * x0 + x * x1) / real_of_int sx)
       (((real_of_int sx - x) * y0 + x * y1) / real_of_int sx)
       (((real_of_int sx - x) * x3 + x * x2) / real_of_int sx)
       (((real_of_int sx - x) * y3 + x * y2) / real_of_int sx)"
  using assms by (simp add: map_xy_lonlat_def Let_def py_truediv_def)

lemma xy2latlon_four:
  assumes "mmpll self = [c0, c1, c2, c3]"
  shows "xy2latlon self x y =
     ebind (map_xy_lonlat c0 c1 c2 c3 (image_width self) (image_height self) x y)
       (\<lambda>p. Inr (Some p))"
  using assms by (simp add: xy2latlon_def py_index_def)

text \<open>
  Claim C9. The coordinate inversion never divides by zero: \<open>intersect_lines\<close> returns a
  coordinate pair for every real input, and when the determinant is exactly zero the pair is
  the two numerators divided by 1; hence \<open>xy2latlon\<close> on a record with four geo corners and
  positive image dimensions always returns a coordinate pair.
\<close>

theorem xy2latlon_total:
  "(\<exists>px py. intersect_lines x1 y1 x2 y2 x3 y3 x4 y4 = Inr (px, py) \<and>
      (det (x1 - x2) (y1 - y2) (x3 - x4) (y3 - y4) = 0 \<longrightarrow>
         px = det (det x1 y1 x2 y2) (x1 - x2) (det x3 y3 x4 y4) (x3 - x4) / 1 \<and>
         py = det (det x1 y1 x2 y2) (y1 - y2) (det x3 y3 x4 y4) (y3 - y4) / 1)) \<and>
   (length (mmpll self) = 4 \<and> image_width self = Some w \<and> image_height self = Some h \<and>
      0 < w \<and> 0 < h \<longrightarrow> (\<exists>p. xy2latlon self x y = Inr (Some p)))"
proof (intro conjI impI)
  show "\<exists>px py. intersect_lines x1 y1 x2 y2 x3 y3 x4 y4 = Inr (px, py) \<and>
      (det (x1 - x2) (y1 - y2) (x3 - x4) (y3 - y4) = 0 \<longrightarrow>
         px = det (det x1 y1 x2 y2) (x1 - x2) (det x3 y3 x4 y4) (x3 - x4) / 1 \<and>
         py = det (det x1 y1 x2 y2) (y1 - y2) (det x3 y3 x4 y4) (y3 - y4) / 1)"
    by (simp add: intersect_lines_total Let_def)
next
  assume a: "length (mmpll self) = 4 \<and> image_width self = Some w \<and>
    image_height self = Some h \<and> 0 < w \<and> 0 < h"
  then obtain c0 c1 c2 c3 where m: "mmpll self = [c0, c1, c2, c3]"
    by (auto simp: length_Suc_conv numeral_eq_Suc)
  obtain x0 y0 x1 y1 x2 y2 x3 y3 where
    c: "c0 = (x0, y0)" "c1 = (x1, y1)" "c2 = (x2, y2)" "c3 = (x3, y3)"
    by (metis surj_pair)
  show "\<exists>p. xy2latlon self x y = Inr (Some p)"
    using a by (simp add: xy2latlon_four [OF m] c map_xy_lonlat_pos intersect_lines_total Let_def)
qed

text \<open>
  Claim C10. \<open>xy2latlon\<close> returns the ``no calibration'' result \<open>None\<close> exactly when
  \<open>mmpll\<close> is empty; when \<open>mmpll\<close> holds 1, 2 or 3 entries it raises IndexError (the
  access to the second, third or fourth corner is out of bounds).
\<close>

theorem xy2latlon_none_iff:
  "(xy2latlon self x y = Inr None \<longleftrightarrow> mmpll self = []) \<and>
   (length (mmpll self) \<in> {1, 2, 3} \<longrightarrow> xy2latlon self x y = Inl IndexError)"
proof (intro conjI impI)
  show "xy2latlon self x y = Inr None \<longleftrightarrow> mmpll self = []"
    by (auto simp: xy2latlon_def ebind_def split: sum.splits)
next
  assume "length (mmpll self) \<in> {1, 2, 3}"
  then show "xy2latlon self x y = Inl IndexError"
    by (auto simp: xy2latlon_def py_index_def)
qed

lemma intersect_at_P1_P3:
  assumes "det (a - a1) (b - b1) (a - a3) (b - b3) \<noteq> 0"
  shows "intersect_lines a b a1 b1 a b a3 b3 = Inr (a, b)"
proof -
  let ?d = "det (a - a1) (b - b1) (a - a3) (b - b3)"
  have "det (det a b a1 b1) (a - a1) (det a b a3 b3) (a - a3) = a * ?d"
    by (simp add: det_def algebra_simps)
  moreover have "det (det a b a1 b1) (b - b1) (det a b a3 b3) (b - b3) = b * ?d"
    by (simp add: det_def algebra_simps)
  ultimately show ?thesis using assms by (simp add: intersect_lines_total Let_def)
qed

lemma intersect_at_P2_P3:
  assumes "det (a0 - a) (b0 - b) (a - a2) (b - b2) \<noteq> 0"
  shows "intersect_lines a0 b0 a b a b a2 b2 = Inr (a, b)"
proof -
  let ?d = "det (a0 - a) (b0 - b) (a - a2) (b - b2)"
  have "det (det a0 b0 a b) (a0 - a) (det a b a2 b2) (a - a2) = a * ?d"
    by (simp add: det_def algebra_simps)
  moreover have "det (det a0 b0 a b) (b0 - b) (det a b a2 b2) (b - b2) = b * ?d"
    by (simp add: det_def algebra_simps)
  ultimately show ?thesis using assms by (simp add: intersect_lines_total Let_def)
qed

lemma intersect_at_P2_P4:
  assumes "det (a3 - a) (b3 - b) (a1 - a) (b1 - b) \<noteq> 0"
  shows "intersect_lines a3 b3 a b a1 b1 a b = Inr (a, b)"
proof -
  let ?d = "det (a3 - a) (b3 - b) (a1 - a) (b1 - b)"
  have "det (det a3 b3 a b) (a3 - a) (det a1 b1 a b) (a1 - a) = a * ?d"
    by (simp add: det_def algebra_simps)
  moreover have "det (det a3 b3 a b) (b3 - b) (det a1 b1 a b) (b1 - b) = b * ?d"
    by (simp add: det_def algebra_simps)
  ultimately show ?thesis using assms by (simp add: intersect_lines_total Let_def)
qed

lemma intersect_at_P1_P4:
  assumes "det (a - a2) (b - b2) (a0 - a) (b0 - b) \<noteq> 0"
  shows "intersect_lines a b a2 b2 a0 b0 a b = Inr (a, b)"
proof -
  let ?d = "det (a - a2) (b - b2) (a0 - a) (b0 - b)"
  have "det (det a b a2 b2) (a - a2) (det a0 b0 a b) (a0 - a) = a * ?d"
    by (simp add: det_def algebra_simps)
  moreover have "det (det a b a2 b2) (b - b2) (det a0 b0 a b) (b0 - b) = b * ?d"
    by (simp add: det_def algebra_simps)
  ultimately show ?thesis using assms by (simp add: intersect_lines_total Let_def)
qed

text \<open>
  Claim C3. With \<open>geo_corners\<close> (\<open>mmpll\<close>) holding exactly four entries in
  [NW, NE, SE, SW] order, positive image width and height, and the two blended lines
  non-parallel at each query, \<open>xy2latlon\<close> at the corner pixels \<open>(0,0)\<close>, \<open>(w,0)\<close>,
  \<open>(w,h)\<close>, \<open>(0,h)\<close> returns entries 0, 1, 2, 3 of \<open>mmpll\<close> exactly. At a corner pixel
  the two blended lines are the two sides of the geo quadrilateral that meet in that corner;
  the four determinant hypotheses say that these sides are not parallel.
\<close>

theorem xy2latlon_corner_pixels:
  assumes m: "mmpll self = [(a0, b0), (a1, b1), (a2, b2), (a3, b3)]"
    and w: "image_width self = Some w" "0 < w"
    and h: "image_height self = Some h" "0 < h"
    and nw: "det (a0 - a1) (b0 - b1) (a0 - a3) (b0 - b3) \<noteq> 0"
    and ne: "det (a0 - a1) (b0 - b1) (a1 - a2) (b1 - b2) \<noteq> 0"
    and se: "det (a3 - a2) (b3 - b2) (a1 - a2) (b1 - b2) \<noteq> 0"
    and sw: "det (a3 - a2) (b3 - b2) (a0 - a3) (b0 - b3) \<noteq> 0"
  shows "xy2latlon self 0 0 = Inr (Some (a0, b0)) \<and>
         xy2latlon self (real_of_int w) 0 = Inr (Some (a1, b1)) \<and>
         xy2latlon self (real_of_int w) (real_of_int h) = Inr (Some (a2, b2)) \<and>
         xy2latlon self 0 (real_of_int h) = Inr (Some (a3, b3))"
proof (intro conjI)
  show "xy2latlon self 0 0 = Inr (Some (a0, b0))"
    using w h by (simp add: xy2latlon_four [OF m] map_xy_lonlat_pos intersect_at_P1_P3 [OF nw])
  show "xy2latlon self (real_of_int w) 0 = Inr (Some (a1, b1))"
    using w h by (simp add: xy2latlon_four [OF m] map_xy_lonlat_pos intersect_at_P2_P3 [OF ne])
  show "xy2latlon self (real_of_int w) (real_of_int h) = Inr (Some (a2, b2))"
    using w h by (simp add: xy2latlon_four [OF m] map_xy_lonlat_pos intersect_at_P2_P4 [OF se])
  show "xy2latlon self 0 (real_of_int h) = Inr (Some (a3, b3))"
    using w h by (simp add: xy2latlon_four [OF m] map_xy_lonlat_pos intersect_at_P1_P4 [OF sw])
qed

lemma hd_sort_key_unique_zero:
  assumes ne: "ps \<noteq> []" and p: "p \<in> set ps" and z: "dist_from p x0 y0 = 0"
    and u: "\<forall>q\<in>set ps. dist_from q x0 y0 = 0 \<longrightarrow> q = p"
  shows "hd (sort_key (\<lambda>q. dist_from q x0 y0) ps) = p"
proof -
  let ?m = "hd (sort_key (\<lambda>q. dist_from q x0 y0) ps)"
  from hd_sort_key_first_min [OF ne, of "\<lambda>q. dist_from q x0 y0"]
  obtain i where i: "i < length ps" "ps ! i = ?m"
    and mn: "\<forall>j<length ps. dist_from (ps ! i) x0 y0 \<le> dist_from (ps ! j) x0 y0" by blast
  from p obtain k where k: "k < length ps" "ps ! k = p" by (auto simp: in_set_conv_nth)
  have "dist_from ?m x0 y0 \<le> 0" using mn k i z by metis
  moreover have "0 \<le> dist_from ?m x0 y0" by (simp add: dist_from_def)
  ultimately have "dist_from ?m x0 y0 = 0" by simp
  moreover have "?m \<in> set ps" using i by (metis nth_mem)
  ultimately show ?thesis using u by blast
qed

lemma dist_from_zero_iff: "dist_from p x0 y0 = 0 \<longleftrightarrow> pt_x p = x0 \<and> pt_y p = y0"
  by (simp add: dist_from_def real_sqrt_eq_zero_cancel_iff sum_power2_eq_zero_iff)

lemma sort_points_corner_points:
  assumes s: "set positions = {nw, ne, sw, se}"
    and xy: "pt_x nw = 0" "pt_y nw = 0" "pt_x ne = real_of_int w" "pt_y ne = 0"
            "pt_x sw = 0" "pt_y sw = real_of_int h"
            "pt_x se = real_of_int w" "pt_y se = real_of_int h"
    and pos: "0 < w" "0 < h"
  shows "sort_points positions (Some w) (Some h) = Inr [nw, ne, se, sw]"
proof -
  have ne0: "positions \<noteq> []" using s by auto
  have "hd (sort_key (\<lambda>q. dist_from q 0 0) positions) = nw"
    by (rule hd_sort_key_unique_zero [OF ne0])
       (use s xy pos in \<open>auto simp: dist_from_zero_iff\<close>)
  moreover have "hd (sort_key (\<lambda>q. dist_from q (real_of_int w) 0) positions) = ne"
    by (rule hd_sort_key_unique_zero [OF ne0])
       (use s xy pos in \<open>auto simp: dist_from_zero_iff\<close>)
  moreover have "hd (sort_key (\<lambda>q. dist_from q 0 (real_of_int h)) positions) = sw"
    by (rule hd_sort_key_unique_zero [OF ne0])
       (use s xy pos in \<open>auto simp: dist_from_zero_iff\<close>)
  moreover have "hd (sort_key (\<lambda>q. dist_from q (real_of_int w) (real_of_int h)) positions) = se"
    by (rule hd_sort_key_unique_zero [OF ne0])
       (use s xy pos in \<open>auto simp: dist_from_zero_iff\<close>)
  ultimately show ?thesis using ne0 by (simp add: sort_points_exact Let_def)
qed

lemma calibrate_calculate_corner_points:
  assumes s: "set positions = {nw, ne, sw, se}"
    and xy: "pt_x nw = 0" "pt_y nw = 0" "pt_x ne = real_of_int w" "pt_y ne = 0"
            "pt_x sw = 0" "pt_y sw = real_of_int h"
            "pt_x se = real_of_int w" "pt_y se = real_of_int h"
    and pos: "0 < w" "0 < h"
  shows "calibrate_calculate positions (Some w) (Some h) =
           Inr [(0, 0, pt_lat nw, pt_lon nw), (w, 0, pt_lat ne, pt_lon ne),
                (w, h, pt_lat se, pt_lon se), (0, h, pt_lat sw, pt_lon sw)]"
proof -
  have w0: "real_of_int w \<noteq> 0" and h0: "real_of_int h \<noteq> 0" using pos by auto
  show ?thesis
    unfolding calibrate_calculate_def sort_points_corner_points [OF s xy pos]
    using w0 h0 by (simp add: xy py_truediv_def Let_def field_simps)
qed

text \<open>
  Claim C4. For points placed exactly at the image pixel corners \<open>(0,0)\<close>, \<open>(w,0)\<close>,
  \<open>(0,h)\<close>, \<open>(w,h)\<close> with \<open>w > 0\<close> and \<open>h > 0\<close>, in any input order, \<open>calibrate\<close>
  returns and writes exactly the four points' geo values into \<open>mmpll\<close> in [NW, NE, SE, SW]
  order, the four image corners into \<open>mmpxy\<close>, and 4 into \<open>mmpnum\<close>. The claim's grid
  condition (latitude constant along rows, longitude constant along columns) is not needed:
  the result holds for every choice of the four geo values, so for every grid in particular.
\<close>

theorem calibrate_exact_corners:
  assumes s: "set (points self) = {nw, ne, sw, se}"
    and xy: "pt_x nw = 0" "pt_y nw = 0" "pt_x ne = real_of_int w" "pt_y ne = 0"
            "pt_x sw = 0" "pt_y sw = real_of_int h"
            "pt_x se = real_of_int w" "pt_y se = real_of_int h"
    and dims: "image_width self = Some w" "image_height self = Some h"
    and pos: "0 < w" "0 < h"
  shows "\<exists>r. calibrate self = Inr r \<and>
           mmpll r = [(pt_lat nw, pt_lon nw), (pt_lat ne, pt_lon ne),
                      (pt_lat se, pt_lon se), (pt_lat sw, pt_lon sw)] \<and>
           mmpxy r = [(0, 0), (w, 0), (w, h), (0, h)] \<and>
           mmpnum r = Some 4"
proof -
  have w0: "real_of_int w \<noteq> 0" using pos by auto
  show ?thesis
    unfolding calibrate_def dims calibrate_calculate_corner_points [OF s xy pos]
    using w0 by (simp add: py_index_def py_truediv_def Let_def)
qed

text \<open>
  Claim C7. The claim says that \<open>calibrate\<close> on a record without points produces the
  empty result and raises nothing. \<open>sort_points\<close> does return the empty list, but
  \<open>calibrate_calculate\<close> then unpacks it into four names: \<open>calibrate\<close> raises ValueError.
\<close>

theorem calibrate_empty_points_raises:
  "calibrate (clear\<lparr> image_width := Some 100, image_height := Some 100 \<rparr>) = Inl ValueError"
  by (simp add: calibrate_def calibrate_calculate_def sort_points_exact clear_def)

lemma calibrate_no_points: "points self = [] \<Longrightarrow> calibrate self = Inl ValueError"
  by (simp add: calibrate_def calibrate_calculate_def sort_points_exact)

theorem calibrate_exact_corners_witness:
  "\<exists>r. calibrate (clear\<lparr> points := [mk_point 0 0 50 20, mk_point 1000 0 50 21,
                                      mk_point 0 800 49 20, mk_point 1000 800 49 21],
                           image_width := Some 1000, image_height := Some 800 \<rparr>) = Inr r \<and>
       mmpll r = [(50, 20), (50, 21), (49, 21), (49, 20)] \<and>
       mmpxy r = [(0, 0), (1000, 0), (1000, 800), (0, 800)] \<and>
       mmpnum r = Some 4"
  using calibrate_exact_corners [of 
     "clear\<lparr> points := [mk_point 0 0 50 20, mk_point 1000 0 50 21,
                                      mk_point 0 800 49 20, mk_point 1000 800 49 21],
                           image_width := Some 1000, image_height := Some 800 \<rparr>"
     "mk_point 0 0 50 20" "mk_point 1000 0 50 21" "mk_point 0 800 49 20" "mk_point 1000 800 49 21"
     1000 800]
  by (simp add: mk_point_def clear_def insert_commute)

lemma sort_points_grid4:
  "sort_points grid4 (Some 10) (Some 10) =
     Inr [mk_point 0 0 50 20, mk_point 10 0 50 21, mk_point 10 10 49 21, mk_point 0 10 49 20]"
  by (simp add: sort_points_exact grid4_def mk_point_def dist_from_def Let_def)

text \<open>
  C8 as stated pairs NW, NE, SE, SW with \<open>(0,0)\<close>, \<open>(width,0)\<close>, \<open>(0,height)\<close>,
  \<open>(width,height)\<close> in that order. On four points at the corners of a 10 by 10 image the
  point returned in the SE position is the one at \<open>(10,10)\<close>, which is not nearest to
  \<open>(0,height)\<close>, and the point returned in the SW position is the one at \<open>(0,10)\<close>, which is
  not nearest to \<open>(width,height)\<close>.
\<close>

theorem sort_points_claimed_pairing_counterexample:
  "sort_points grid4 (Some 10) (Some 10) =
     Inr [mk_point 0 0 50 20, mk_point 10 0 50 21, mk_point 10 10 49 21, mk_point 0 10 49 20] \<and>
   \<not> spec_first_nearest grid4 0 10 (mk_point 10 10 49 21) \<and>
   \<not> spec_first_nearest grid4 10 10 (mk_point 0 10 49 20)"
proof (intro conjI)
  show "sort_points grid4 (Some 10) (Some 10) =
     Inr [mk_point 0 0 50 20, mk_point 10 0 50 21, mk_point 10 10 49 21, mk_point 0 10 49 20]"
    by (rule sort_points_grid4)
  have a: "dist_from (mk_point 10 10 49 21) 0 10 > dist_from (grid4 ! 2) 0 10"
    by (simp add: grid4_def mk_point_def dist_from_def)
  show "\<not> spec_first_nearest grid4 0 10 (mk_point 10 10 49 21)"
  proof
    assume "spec_first_nearest grid4 0 10 (mk_point 10 10 49 21)"
    then have "\<forall>j<length grid4. dist_from (mk_point 10 10 49 21) 0 10 \<le> dist_from (grid4 ! j) 0 10"
      unfolding spec_first_nearest_def by blast
    moreover have "2 < length grid4" by (simp add: grid4_def)
    ultimately have "dist_from (mk_point 10 10 49 21) 0 10 \<le> dist_from (grid4 ! 2) 0 10"
      by blast
    with a show False by simp
  qed
  have b: "dist_from (mk_point 0 10 49 20) 10 10 > dist_from (grid4 ! 3) 10 10"
    by (simp add: grid4_def mk_point_def dist_from_def)
  show "\<not> spec_first_nearest grid4 10 10 (mk_point 0 10 49 20)"
  proof
    assume "spec_first_nearest grid4 10 10 (mk_point 0 10 49 20)"
    then have "\<forall>j<length grid4. dist_from (mk_point 0 10 49 20) 10 10 \<le> dist_from (grid4 ! j) 10 10"
      unfolding spec_first_nearest_def by blast
    moreover have "3 < length grid4" by (simp add: grid4_def)
    ultimately have "dist_from (mk_point 0 10 49 20) 10 10 \<le> dist_from (grid4 ! 3) 10 10"
      by blast
    with b show False by simp
  qed
qed

theorem sort_points_fl_nearest_corners_witness:
  "near_pair \<noteq> [] \<and>
   (\<exists>nw ne se sw.
      sort_points_fl coarse_arith near_pair (Some 10) (Some 10) = Inr [nw, ne, se, sw] \<and>
      spec_first_min_by (coarse_dist 0 0) near_pair nw \<and>
      spec_first_min_by (coarse_dist 10 0) near_pair ne \<and>
      spec_first_min_by (coarse_dist 10 10) near_pair se \<and>
      spec_first_min_by (coarse_dist 0 10) near_pair sw)"
proof -
  have h: "near_pair \<noteq> []" by (simp add: near_pair_def)
  have d: "\<And>x0 y0. \<forall>p\<in>set near_pair. dist_from_fl coarse_arith p x0 y0 = Inr (coarse_dist x0 y0 p)"
    by (simp add: dist_from_fl_def coarse_arith_def exact_arith_def coarse_dist_def)
  show ?thesis
    using h sort_points_fl_nearest_corners [OF h d [of 0 0] d [of "real_of_int 10" 0]
        d [of "real_of_int 10" "real_of_int 10"] d [of 0 "real_of_int 10"]]
    by simp
qed

text \<open>
  In the coarse arithmetic the sum of the squares is rounded down to a whole number. The
  first point of \<open>near_pair\<close> is farther from \<open>(0,0)\<close> than the second (the exact squared
  distances are 25.4025 and 25), but the computed distances are equal, and the first point
  is returned for NW.
\<close>

lemma sort_points_fl_rounding_tie:
  "sort_points_fl coarse_arith near_pair (Some 10) (Some 10) =
     Inr [mk_point 3 (81 / 20) 0 0, mk_point 3 (81 / 20) 0 0,
          mk_point 3 (81 / 20) 0 0, mk_point 3 (81 / 20) 0 0] \<and>
   dist_from (mk_point 3 4 0 0) 0 0 < dist_from (mk_point 3 (81 / 20) 0 0) 0 0"
proof -
  have h: "near_pair \<noteq> []" by (simp add: near_pair_def)
  have d: "\<And>x0 y0. \<forall>p\<in>set near_pair. dist_from_fl coarse_arith p x0 y0 = Inr (coarse_dist x0 y0 p)"
    by (simp add: dist_from_fl_def coarse_arith_def exact_arith_def coarse_dist_def)
  have s: "\<And>x0 y0. sorted_by (\<lambda>p. dist_from_fl coarse_arith p x0 y0) near_pair =
             Inr (sort_key (coarse_dist x0 y0) near_pair)"
    by (rule sorted_by_total) (rule d)
  have k: "hd (sort_key (coarse_dist 0 0) near_pair) = mk_point 3 (81 / 20) 0 0"
          "hd (sort_key (coarse_dist 10 0) near_pair) = mk_point 3 (81 / 20) 0 0"
          "hd (sort_key (coarse_dist 10 10) near_pair) = mk_point 3 (81 / 20) 0 0"
          "hd (sort_key (coarse_dist 0 10) near_pair) = mk_point 3 (81 / 20) 0 0"
    by (simp_all add: near_pair_def coarse_dist_def mk_point_def power2_eq_square)
  have "sort_points_fl coarse_arith near_pair (Some 10) (Some 10) =
     Inr [mk_point 3 (81 / 20) 0 0, mk_point 3 (81 / 20) 0 0,
          mk_point 3 (81 / 20) 0 0, mk_point 3 (81 / 20) 0 0]"
    unfolding sort_points_fl_def using h by (simp add: s k)
  moreover have "dist_from (mk_point 3 4 0 0) 0 0 < dist_from (mk_point 3 (81 / 20) 0 0) 0 0"
  proof -
    have "(5::real) < sqrt (10161 / 400)" by (rule real_less_rsqrt) simp
    then show ?thesis by (simp add: dist_from_def mk_point_def power2_eq_square)
  qed
  ultimately show ?thesis by simp
qed

theorem xy2latlon_corner_pixels_witness:
  "xy2latlon square_map 0 0 = Inr (Some (10, 20)) \<and>
   xy2latlon square_map (real_of_int 1000) 0 = Inr (Some (10, 21)) \<and>
   xy2latlon square_map (real_of_int 1000) (real_of_int 800) = Inr (Some (9, 21)) \<and>
   xy2latlon square_map 0 (real_of_int 800) = Inr (Some (9, 20))"
  by (rule xy2latlon_corner_pixels [of square_map 10 20 10 21 9 21 9 20 1000 800])
     (simp_all add: square_map_def clear_def det_def)

theorem xy2latlon_total_witness:
  "(\<exists>px py. intersect_lines 0 0 1 1 2 2 3 3 = Inr (px, py) \<and> px = 0 \<and> py = 0) \<and>
   (\<exists>p. xy2latlon square_map 500 400 = Inr (Some p))"
  using xy2latlon_total [of 0 0 1 1 2 2 3 3 square_map 1000 800 500 400]
  by (simp add: square_map_def clear_def det_def)

theorem xy2latlon_none_iff_witness:
  "xy2latlon clear 1 2 = Inr None \<and>
   xy2latlon (clear\<lparr> mmpll := [(10, 20), (10, 21)] \<rparr>) 1 2 = Inl IndexError"
  using xy2latlon_none_iff [of clear 1 2]
        xy2latlon_none_iff [of "clear\<lparr> mmpll := [(10, 20), (10, 21)] \<rparr>" 1 2]
  by (simp add: clear_def)

section \<open>Properties of the parser\<close>

lemmas eval_defs =
  parse_map_def parse_line_def parse_point_def parse_mmpxy_def parse_mmpll_def
  value_error_as_def header_def nl_def startswith_def
  Let_def py_index_def to_int_def to_float_def py_int_def py_float_def
  strip_def is_space_def strip_num_def is_num_space_def is_nonfinite_word_def ci_match_def
  unsigned_int_def unsigned_float_def digitpart_def is_digit_def
  digit_val_def float_mantissa_def float_exponent_def ebind_def clear_def

text \<open>
  Claim C1. The claim says that the parsed longitude is field 6 + field 7 / 60, negated exactly
  when field 8 is \<open>E\<close>, and the parsed latitude is field 9 + field 10 / 60, negated exactly
  when field 11 is \<open>S\<close>. In \<open>parse_point\<close> the test of field 8 negates the latitude and
  the test of field 11 negates the longitude: on a line with \<open>10, 30.0, E\<close> in fields 6 to 8
  and \<open>20, 15.0, N\<close> in fields 9 to 11 the code returns longitude \<open>+10.5\<close> and latitude
  \<open>-20.25\<close>, where the claim gives \<open>-10.5\<close> and \<open>+20.25\<close>.
\<close>

theorem parse_point_hemisphere_fields:
  "parse_point ''Point01,xy,  100,  200,in, deg,  10,30.0,E,  20,15.0,N, grid,   ,           ,           ,N''
     = Inr (Some \<lparr> pt_idx = Some 1, pt_x = 100, pt_y = 200,
                    pt_lat = - (20 + 15 / 60), pt_lon = 10 + 30 / 60 \<rparr>)"
  by (simp add: eval_defs)

text \<open>
  Claim C5. The claim says that an out-of-order corner id in an \<open>MMPLL\<close> or \<open>MMPXY\<close> line
  makes the parse fail with the module's \<open>InvalidFileException\<close>. The \<open>MMPXY\<close> branch does;
  the \<open>MMPLL\<close> branch executes \<^verbatim>\<open>raise Error()\<close>, and \<^verbatim>\<open>Error\<close> is not defined in
  the module, so a NameError escapes instead.
\<close>

theorem parse_map_mmpll_out_of_order:
  "parse_map (sample_map_text @ ''MMPLL,2,1.0,2.0'') = Inl NameError \<and>
   parse_map (sample_map_text @ ''MMPXY,2,10,20'') = Inl (InvalidFileException NoMessage)"
  by (simp add: sample_map_text_def eval_defs)

text \<open>
  Claim C6 as stated compares the first line character for character. A first line that
  differs from the literal only by surrounding blanks is not equal to it, and the parse
  succeeds.
\<close>

theorem parse_map_header_stripped_counterexample:
  "hd (split_on (CHR 0x0A) ('' OziExplorer Map Data File Version 2.2 '' @ drop 37 sample_map_text))
      \<noteq> ''OziExplorer Map Data File Version 2.2'' \<and>
   parse_map ('' OziExplorer Map Data File Version 2.2 '' @ drop 37 sample_map_text) =
     Inr (clear\<lparr> img_filename := Some ''img.jpg'', img_filepath := Some ''c:/maps/img.jpg'',
                  projection := Some ''WGS 84,WGS 84,   0.0000,   0.0000,WGS 84'',
                  map_projection :=
                    Some ''Map Projection,Latitude/Longitude,PolyCal,No,AutoCalOnly,No,BSBUseWPX,No'' \<rparr>)"
  by (simp add: sample_map_text_def eval_defs)

lemma py_index_not_invalid: "py_index xs i \<noteq> Inl (InvalidFileException r)"
  by (simp add: py_index_def)

lemma to_int_not_invalid: "to_int s \<noteq> Inl (InvalidFileException r)"
  by (simp add: to_int_def split: option.splits)

lemma to_float_not_invalid: "to_float s \<noteq> Inl (InvalidFileException r)"
  by (simp add: to_float_def split: float_lit.splits)

lemma parse_point_not_invalid: "parse_point line \<noteq> Inl (InvalidFileException r)"
  unfolding parse_point_def Let_def
  by (simp add: ebind_eq_Inl_iff py_index_not_invalid to_int_not_invalid to_float_not_invalid)

lemma value_error_as_not_header:
  "value_error_as WrongField m = Inl (InvalidFileException WrongHeader) \<longleftrightarrow>
   m = Inl (InvalidFileException WrongHeader)"
  by (auto simp: value_error_as_def split: sum.splits error.splits)

lemma parse_mmpxy_not_header: "parse_mmpxy line \<noteq> Inl (InvalidFileException WrongHeader)"
  unfolding parse_mmpxy_def Let_def
  by (simp add: value_error_as_not_header ebind_eq_Inl_iff to_int_not_invalid split: list.splits)

lemma parse_mmpll_not_header: "parse_mmpll line \<noteq> Inl (InvalidFileException WrongHeader)"
  unfolding parse_mmpll_def Let_def
  by (simp add: value_error_as_not_header ebind_eq_Inl_iff to_int_not_invalid
      to_float_not_invalid split: list.splits)

lemma parse_line_not_header: "parse_line self line \<noteq> Inl (InvalidFileException WrongHeader)"
  unfolding parse_line_def
  by (simp add: ebind_eq_Inl_iff parse_point_not_invalid to_int_not_invalid
      to_float_not_invalid parse_mmpxy_not_header parse_mmpll_not_header
      split: option.splits prod.splits list.splits sum.splits)

lemma parse_lines_not_header: "parse_lines self ls \<noteq> Inl (InvalidFileException WrongHeader)"
  by (induction ls arbitrary: self) (simp_all add: ebind_eq_Inl_iff parse_line_not_header)

lemma split_on_not_Nil [simp]: "split_on c s \<noteq> []"
  by (induction s) (auto simp: Let_def)

text \<open>
  Claim C6 (as amended). \<open>parse_map\<close> fails with the wrong-header error exactly when the
  first line, with leading and trailing whitespace removed, differs from the literal
  \<open>OziExplorer Map Data File Version 2.2\<close>.
\<close>

theorem parse_map_bad_header_iff:
  "parse_map t = Inl (InvalidFileException WrongHeader) \<longleftrightarrow>
   strip (hd (split_on (CHR 0x0A) t)) \<noteq> header"
proof -
  obtain l ls where s: "split_on (CHR 0x0A) t = l # ls"
    by (cases "split_on (CHR 0x0A) t") auto
  show ?thesis
  proof (cases "strip l = header")
    case False
    then show ?thesis by (simp add: parse_map_def s py_index_def)
  next
    case True
    have "parse_map t \<noteq> Inl (InvalidFileException WrongHeader)"
      unfolding parse_map_def Let_def s
      using True
      by (simp add: ebind_eq_Inl_iff py_index_def parse_lines_not_header)
    with True show ?thesis by (simp add: s)
  qed
qed

lemma startswith_Nil: "startswith s [] \<longleftrightarrow> True"
  by (simp add: startswith_def)

lemma startswith_Cons:
  "startswith s (c # p) \<longleftrightarrow> (case s of [] \<Rightarrow> False | d # r \<Rightarrow> d = c \<and> startswith r p)"
  by (cases s) (auto simp: startswith_def)

lemma parse_line_mmpxy_out_of_order:
  assumes "startswith line ''MMPXY''" and "parse_mmpxy line = Inr (point_id, x, y)"
    and "point_id \<noteq> int (length (mmpxy self)) + 1"
  shows "parse_line self line = Inl (InvalidFileException NoMessage)"
  using assms
  by (auto simp: parse_line_def startswith_Cons startswith_Nil split: list.splits)

lemma parse_line_mmpll_out_of_order:
  assumes "startswith line ''MMPLL''" and "parse_mmpll line = Inr (point_id, lon, lat)"
    and "point_id \<noteq> int (length (mmpll self)) + 1"
  shows "parse_line self line = Inl NameError"
  using assms
  by (auto simp: parse_line_def startswith_Cons startswith_Nil split: list.splits)

theorem parse_map_bad_header_iff_witness:
  "parse_map (''OziExplorer Map Data File Version 2.3'' @ drop 37 sample_map_text)
     = Inl (InvalidFileException WrongHeader) \<and>
   parse_map ('' OziExplorer Map Data File Version 2.2 '' @ drop 37 sample_map_text)
     \<noteq> Inl (InvalidFileException WrongHeader)"
  using parse_map_bad_header_iff [of "''OziExplorer Map Data File Version 2.3'' @ drop 37 sample_map_text"]
        parse_map_bad_header_iff [of "'' OziExplorer Map Data File Version 2.2 '' @ drop 37 sample_map_text"]
  by (simp add: sample_map_text_def nl_def header_def strip_def is_space_def Let_def)

subsection \<open>The round trip of \<^verbatim>\<open>to_str\<close> and \<^verbatim>\<open>parse_map\<close>\<close>






























lemma dropWhile_idem: "dropWhile P (dropWhile P s) = dropWhile P s"
  by (metis dropWhile_eq_Nil_conv dropWhile_idem)

















































lemma digits_of_small: "n < 10 \<Longrightarrow> digits_of n = [digit_char n]"
  by (simp add: digits_of.simps)

lemma digits_of_large:
  "10 \<le> n \<Longrightarrow> digits_of n = digits_of (n div 10) @ [digit_char (n mod 10)]"
  by (subst digits_of.simps) simp








text \<open>
  What the serializer does outside the hypotheses of the round trip theorem.
\<close>

lemma replicate_eval:
  "replicate 2 c = [c, c]" "replicate 3 c = [c, c, c]" "replicate 6 c = [c, c, c, c, c, c]"
  by (simp_all add: eval_nat_numeral)

lemma round_half_even_zero: "round_half_even 0 = 0"
  by (simp add: round_half_even_def)

lemma fmt_f7_zero: "fmt_f7 0 = ''0.0000000''"
  by (simp add: fmt_f7_def round_half_even_zero digits_of_small digit_char_def rjust_def
      replicate_eval)

lemma point_line_origin:
  "point_line 0 (mk_point 10 20 50 20) =
     ''Point0,xy,   10,   20,in, deg,  20,0.0000000,N,  50,0.0000000,E, grid,   ,           ,           ,N''"
  by (simp add: point_line_def mk_point_def degree2minsec_def py_trunc_def fmt_f7_zero
      str_int_def digits_of_small digits_of_large digit_char_def rjust_def replicate_eval)

lemma to_str_point_not_reparsed:
  "parse_line s (point_line 0 (mk_point 10 20 50 20)) = Inl ValueError"
  unfolding point_line_origin by (simp add: eval_defs)

lemma round_half_even_tenth: "round_half_even (1 / 10) = 0"
proof -
  have "\<lfloor>1 / 10 :: real\<rfloor> = 0" by simp
  then show ?thesis by (simp add: round_half_even_def)
qed

lemma fmt_f7_eighth_decimal: "fmt_f7 (1 / 10 ^ 8) = ''0.0000000''"
proof -
  have "\<bar>1 / 10 ^ 8 :: real\<bar> * 10 ^ 7 = 1 / 10" by simp
  then show ?thesis
    unfolding fmt_f7_def
    by (simp add: round_half_even_tenth digits_of_small digit_char_def rjust_def replicate_eval)
qed

lemma to_str_eighth_decimal_lost:
  "parse_mmpll (mmpll_line 0 (1 / 10 ^ 8, 0)) = Inr (1, 0, 0)"
proof -
  have "mmpll_line 0 (1 / 10 ^ 8, 0) = ''MMPLL,1,0.0000000,0.0000000''"
    unfolding mmpll_line_def prod.case fmt_f7_eighth_decimal fmt_f7_zero
    by (simp add: str_int_def digits_of_small digit_char_def)
  then show ?thesis by (simp add: eval_defs)
qed

lemma to_str_none_not_reparsed:
  "parse_line s ''MM1B,None'' = Inl ValueError"
  "parse_line s ''IWH,Map Image Width/Height,None,None'' = Inl ValueError"
  by (simp_all add: eval_defs)

end
